theory Spec2Isabelle
  imports Main "HOL-Library.Sublist"
begin

section \<open>Python values and their string forms\<close>

text \<open>
  The filter dictionaries of \<^verbatim>\<open>craigslist_complex_generator.py\<close> map parameter names to
  Python values. A Python \<^verbatim>\<open>str\<close> is modelled as a \<^typ>\<open>string\<close> whose characters are the
  code points U+0000 to U+00FF; every literal of the source is plain ASCII. A dictionary
  is an association list in insertion order. Floating-point values are not modelled.
\<close>

datatype pyval =
    PStr string
  | PInt int
  | PBool bool
  | PNone
  | PList "pyval list"
  | PDict "(string \<times> pyval) list"

definition quote_chr :: char where
  "quote_chr = CHR 0x27"

definition dquote_chr :: char where
  "dquote_chr = CHR 0x22"

definition backslash_chr :: char where
  "backslash_chr = CHR 0x5C"

text \<open>\<^verbatim>\<open>sep.join(xs)\<close>\<close>

fun join :: "string \<Rightarrow> string list \<Rightarrow> string" where
  "join sep [] = []"
| "join sep [x] = x"
| "join sep (x # y # ys) = x @ sep @ join sep (y # ys)"

text \<open>Decimal digits of a natural number, as \<^verbatim>\<open>str(n)\<close> prints them.\<close>

definition digit_chr :: "nat \<Rightarrow> char" where
  "digit_chr d = ''0123456789'' ! d"

function str_nat :: "nat \<Rightarrow> string" where
  "str_nat n = (if n < 10 then [digit_chr n] else str_nat (n div 10) @ [digit_chr (n mod 10)])"
  by pat_completeness auto
termination
  by (relation "measure id") auto

declare str_nat.simps [simp del]

definition str_int :: "int \<Rightarrow> string" where
  "str_int i = (if i < 0 then CHR ''-'' # str_nat (nat (- i)) else str_nat (nat i))"

definition hex_lower :: "nat \<Rightarrow> char" where
  "hex_lower d = ''0123456789abcdef'' ! d"

definition hex_upper :: "nat \<Rightarrow> char" where
  "hex_upper d = ''0123456789ABCDEF'' ! d"

text \<open>
  \<^verbatim>\<open>repr\<close> of a string: single quotes unless the string holds a single quote and no
  double quote; the quote and the backslash are escaped, tab, newline and carriage
  return get their letter escapes, and the other characters that are not printable
  (controls, DEL, U+0080 to U+00A0 and U+00AD) are written \<^verbatim>\<open>\xhh\<close>.
\<close>

definition repr_quote :: "string \<Rightarrow> char" where
  "repr_quote s = (if quote_chr \<in> set s \<and> dquote_chr \<notin> set s then dquote_chr else quote_chr)"

definition repr_hex :: "nat \<Rightarrow> string" where
  "repr_hex n = [backslash_chr, CHR ''x'', hex_lower (n div 16), hex_lower (n mod 16)]"

definition repr_char :: "char \<Rightarrow> char \<Rightarrow> string" where
  "repr_char q c =
     (let n = (of_char c :: nat) in
      if c = q \<or> c = backslash_chr then [backslash_chr, c]
      else if n = 9 then [backslash_chr, CHR ''t'']
      else if n = 10 then [backslash_chr, CHR ''n'']
      else if n = 13 then [backslash_chr, CHR ''r'']
      else if n < 32 \<or> n = 127 then repr_hex n
      else if n < 127 then [c]
      else if n \<le> 160 \<or> n = 173 then repr_hex n
      else [c])"

definition repr_str :: "string \<Rightarrow> string" where
  "repr_str s = (let q = repr_quote s in q # concat (map (repr_char q) s) @ [q])"

fun py_repr :: "pyval \<Rightarrow> string" where
  "py_repr (PStr s) = repr_str s"
| "py_repr (PInt i) = str_int i"
| "py_repr (PBool b) = (if b then ''True'' else ''False'')"
| "py_repr PNone = ''None''"
| "py_repr (PList vs) = ''['' @ join '', '' (map py_repr vs) @ '']''"
| "py_repr (PDict kvs) =
     ''{'' @ join '', '' (map (\<lambda>(k, v). repr_str k @ '': '' @ py_repr v) kvs) @ ''}''"

text \<open>\<^verbatim>\<open>str(value)\<close>, which is also what an f-string field \<^verbatim>\<open>{value}\<close> inserts.\<close>

fun py_str :: "pyval \<Rightarrow> string" where
  "py_str (PStr s) = s"
| "py_str v = py_repr v"

section \<open>\<^verbatim>\<open>urllib.parse.quote\<close>\<close>

text \<open>
  \<^verbatim>\<open>quote(string)\<close> with its default \<^verbatim>\<open>safe='/'\<close>: the string is encoded as UTF-8 and
  every byte outside the unreserved characters and \<^verbatim>\<open>/\<close> becomes \<^verbatim>\<open>%XX\<close> with
  upper-case hexadecimal digits.
\<close>

definition always_safe :: string where
  "always_safe =
     ''ABCDEFGHIJKLMNOPQRSTUVWXYZ'' @ ''abcdefghijklmnopqrstuvwxyz'' @ ''0123456789'' @ ''_.-~''"

definition utf8_encode :: "char \<Rightarrow> nat list" where
  "utf8_encode c =
     (let n = (of_char c :: nat) in
      if n < 128 then [n] else [192 + n div 64, 128 + n mod 64])"

definition percent_byte :: "nat \<Rightarrow> string" where
  "percent_byte b = [CHR ''%'', hex_upper (b div 16), hex_upper (b mod 16)]"

definition quote_char :: "char \<Rightarrow> string" where
  "quote_char c =
     (if c \<in> set always_safe \<or> c = CHR ''/'' then [c]
      else concat (map percent_byte (utf8_encode c)))"

definition quote :: "string \<Rightarrow> string" where
  "quote s = concat (map quote_char s)"

section \<open>The URL builder\<close>

text \<open>
  The body of the loop of \<^verbatim>\<open>build_url\<close>: the pairs one dictionary item appends to
  \<^verbatim>\<open>encoded_params\<close>. The test on the name comes first, as in the source.
\<close>

fun encode_param :: "string \<times> pyval \<Rightarrow> string list" where
  "encode_param (key, val) =
     (if key = ''query'' \<or> key = ''auto_make_model''
      then [key @ ''='' @ quote (py_str val)]
      else (case val of
              PList vs \<Rightarrow> map (\<lambda>v. key @ ''='' @ py_str v) vs
            | _ \<Rightarrow> [key @ ''='' @ py_str val]))"

definition build_url :: "string \<Rightarrow> string \<Rightarrow> (string \<times> pyval) list \<Rightarrow> string" where
  "build_url base_url category_code params =
     (let url = base_url @ ''/search/'' @ category_code;
          url = (if params \<noteq> []
                 then url @ ''?'' @ join ''&'' (concat (map encode_param params))
                 else url)
      in url @ ''#search=2~gallery~0'')"


section \<open>Regions and task records\<close>

text \<open>
  Each entry of \<^verbatim>\<open>REGIONS\<close> is a dictionary with the three fixed keys
  \<^verbatim>\<open>url_prefix\<close>, \<^verbatim>\<open>location\<close> and \<^verbatim>\<open>timezone\<close>; it is modelled as a record, the last
  two fields carrying the prefix \<open>region_\<close> to keep them apart from the fields of
  \<^verbatim>\<open>TaskConfig\<close>.
\<close>

record region_config =
  url_prefix :: string
  region_location :: string
  region_timezone :: string

definition REGIONS :: "(string \<times> region_config) list" where
  "REGIONS =
     [(''sfbay'',
         \<lparr> url_prefix = ''https://sfbay.craigslist.org'',
           region_location = ''San Francisco, CA, United States'',
           region_timezone = ''America/Los_Angeles'' \<rparr>),
      (''losangeles'',
         \<lparr> url_prefix = ''https://losangeles.craigslist.org'',
           region_location = ''Los Angeles, CA, United States'',
           region_timezone = ''America/Los_Angeles'' \<rparr>),
      (''newyork'',
         \<lparr> url_prefix = ''https://newyork.craigslist.org'',
           region_location = ''New York, NY, United States'',
           region_timezone = ''America/New_York'' \<rparr>),
      (''seattle'',
         \<lparr> url_prefix = ''https://seattle.craigslist.org'',
           region_location = ''Seattle, WA, United States'',
           region_timezone = ''America/Los_Angeles'' \<rparr>),
      (''chicago'',
         \<lparr> url_prefix = ''https://chicago.craigslist.org'',
           region_location = ''Chicago, IL, United States'',
           region_timezone = ''America/Chicago'' \<rparr>)]"

record TaskConfig =
  task_id :: string
  task :: string
  url :: string
  gt_urls :: "string list list"
  location :: string
  timezone :: string
  difficulty :: string
  l2_category :: string

text \<open>
  One entry of a category's literal list: the dictionary with the keys \<^verbatim>\<open>task\<close>,
  \<^verbatim>\<open>params\<close> and \<^verbatim>\<open>difficulty\<close>.
\<close>

record task_data =
  td_task :: string
  td_params :: "(string \<times> pyval) list"
  td_difficulty :: string

datatype error =
    KeyError string
  | AssertionError string
  | SystemExit nat
  | ValueError

section \<open>The literal task tables\<close>

definition car_tasks :: "task_data list" where
  "car_tasks =
     [
      \<lparr> td_task = ''Find Toyota cars with images priced under $15,000.'',
         td_params = [(''auto_make_model'', PStr ''toyota''), (''hasPic'', PStr ''1''), (''max_price'', PStr ''15000'')],
         td_difficulty = ''medium'' \<rparr>,
      \<lparr> td_task = ''Browse Honda Accord cars sold by owners.'',
         td_params = [(''auto_make_model'', PStr ''honda accord''), (''purveyor'', PStr ''owner'')],
         td_difficulty = ''medium'' \<rparr>,
      \<lparr> td_task = ''Find cars under $8,000 with images sorted by lowest price.'',
         td_params = [(''max_price'', PStr ''8000''), (''hasPic'', PStr ''1''), (''sort'', PStr ''priceasc'')],
         td_difficulty = ''medium'' \<rparr>,
      \<lparr> td_task = ''Search for Ford vehicles from dealers with photos.'',
         td_params = [(''auto_make_model'', PStr ''ford''), (''purveyor'', PStr ''dealer''), (''hasPic'', PStr ''1'')],
         td_difficulty = ''medium'' \<rparr>,
      \<lparr> td_task = ''Find cars priced between $5,000 and $12,000.'',
         td_params = [(''min_price'', PStr ''5000''), (''max_price'', PStr ''12000'')],
         td_difficulty = ''easy'' \<rparr>,
      \<lparr> td_task = ''Find cars with automatic transmission under $10,000 with images.'',
         td_params = [(''auto_transmission'', PStr ''1''), (''max_price'', PStr ''10000''), (''hasPic'', PStr ''1'')],
         td_difficulty = ''hard'' \<rparr>,
      \<lparr> td_task = ''Search for manual transmission cars priced between $5,000 and $20,000.'',
         td_params = [(''auto_transmission'', PStr ''2''), (''min_price'', PStr ''5000''), (''max_price'', PStr ''20000'')],
         td_difficulty = ''hard'' \<rparr>,
      \<lparr> td_task = ''Browse manual transmission sports cars with images.'',
         td_params = [(''auto_transmission'', PStr ''2''), (''auto_bodytype'', PStr ''3''), (''hasPic'', PStr ''1'')],
         td_difficulty = ''hard'' \<rparr>,
      \<lparr> td_task = ''Find electric vehicles with images.'',
         td_params = [(''auto_fuel_type'', PStr ''4''), (''hasPic'', PStr ''1'')],
         td_difficulty = ''medium'' \<rparr>,
      \<lparr> td_task = ''Browse hybrid cars under $25,000 sold by owners.'',
         td_params = [(''auto_fuel_type'', PStr ''3''), (''max_price'', PStr ''25000''), (''purveyor'', PStr ''owner'')],
         td_difficulty = ''hard'' \<rparr>,
      \<lparr> td_task = ''Find diesel trucks with images priced under $35,000.'',
         td_params = [(''auto_fuel_type'', PStr ''2''), (''auto_bodytype'', PStr ''9''), (''hasPic'', PStr ''1''), (''max_price'', PStr ''35000'')],
         td_difficulty = ''hard'' \<rparr>,
      \<lparr> td_task = ''Search for gasoline SUVs under $20,000.'',
         td_params = [(''auto_fuel_type'', PStr ''1''), (''auto_bodytype'', PStr ''10''), (''max_price'', PStr ''20000'')],
         td_difficulty = ''hard'' \<rparr>,
      \<lparr> td_task = ''Find SUVs with images under $18,000.'',
         td_params = [(''auto_bodytype'', PStr ''10''), (''hasPic'', PStr ''1''), (''max_price'', PStr ''18000'')],
         td_difficulty = ''medium'' \<rparr>,
      \<lparr> td_task = ''Browse pickup trucks sold by owners with photos.'',
         td_params = [(''auto_bodytype'', PStr ''7''), (''purveyor'', PStr ''owner''), (''hasPic'', PStr ''1'')],
         td_difficulty = ''medium'' \<rparr>,
      \<lparr> td_task = ''Find sedans with automatic transmission under $12,000.'',
         td_params = [(''auto_bodytype'', PStr ''8''), (''auto_transmission'', PStr ''1''), (''max_price'', PStr ''12000'')],
         td_difficulty = ''hard'' \<rparr>,
      \<lparr> td_task = ''Search for convertibles priced between $15,000 and $40,000 with images.'',
         td_params = [(''auto_bodytype'', PStr ''2''), (''min_price'', PStr ''15000''), (''max_price'', PStr ''40000''), (''hasPic'', PStr ''1'')],
         td_difficulty = ''hard'' \<rparr>,
      \<lparr> td_task = ''Find 4WD vehicles with images under $25,000.'',
         td_params = [(''auto_drivetrain'', PStr ''3''), (''hasPic'', PStr ''1''), (''max_price'', PStr ''25000'')],
         td_difficulty = ''hard'' \<rparr>,
      \<lparr> td_task = ''Browse rear-wheel drive cars sold by owners.'',
         td_params = [(''auto_drivetrain'', PStr ''2''), (''purveyor'', PStr ''owner'')],
         td_difficulty = ''medium'' \<rparr>,
      \<lparr> td_task = ''Find front-wheel drive sedans under $15,000 with images.'',
         td_params = [(''auto_drivetrain'', PStr ''1''), (''auto_bodytype'', PStr ''8''), (''max_price'', PStr ''15000''), (''hasPic'', PStr ''1'')],
         td_difficulty = ''hard'' \<rparr>,
      \<lparr> td_task = ''Find cars with clean title under $10,000 with images.'',
         td_params = [(''srchType'', PStr ''T''), (''max_price'', PStr ''10000''), (''hasPic'', PStr ''1'')],
         td_difficulty = ''hard'' \<rparr>,
      \<lparr> td_task = ''Browse salvage title vehicles under $5,000.'',
         td_params = [(''auto_title_status'', PStr ''2''), (''max_price'', PStr ''5000'')],
         td_difficulty = ''medium'' \<rparr>,
      \<lparr> td_task = ''Find cars from 2020 or newer with images.'',
         td_params = [(''min_auto_year'', PStr ''2020''), (''hasPic'', PStr ''1'')],
         td_difficulty = ''medium'' \<rparr>,
      \<lparr> td_task = ''Browse classic cars from 1985 or older with photos.'',
         td_params = [(''max_auto_year'', PStr ''1985''), (''hasPic'', PStr ''1'')],
         td_difficulty = ''medium'' \<rparr>,
      \<lparr> td_task = ''Find cars between 2018 and 2022 priced under $25,000.'',
         td_params = [(''min_auto_year'', PStr ''2018''), (''max_auto_year'', PStr ''2022''), (''max_price'', PStr ''25000'')],
         td_difficulty = ''hard'' \<rparr>,
      \<lparr> td_task = ''Find low mileage cars under 50,000 miles with images.'',
         td_params = [(''max_auto_miles'', PStr ''50000''), (''hasPic'', PStr ''1'')],
         td_difficulty = ''medium'' \<rparr>,
      \<lparr> td_task = ''Browse cars with less than 80,000 miles priced under $15,000.'',
         td_params = [(''max_auto_miles'', PStr ''80000''), (''max_price'', PStr ''15000'')],
         td_difficulty = ''hard'' \<rparr>,
      \<lparr> td_task = ''Find white SUVs with images under $22,000.'',
         td_params = [(''auto_paint'', PStr ''10''), (''auto_bodytype'', PStr ''10''), (''hasPic'', PStr ''1''), (''max_price'', PStr ''22000'')],
         td_difficulty = ''hard'' \<rparr>,
      \<lparr> td_task = ''Browse black sedans sold by owners with photos.'',
         td_params = [(''auto_paint'', PStr ''1''), (''auto_bodytype'', PStr ''8''), (''purveyor'', PStr ''owner''), (''hasPic'', PStr ''1'')],
         td_difficulty = ''hard'' \<rparr>,
      \<lparr> td_task = ''Find Toyota Camry with automatic transmission under 70,000 miles priced between $12,000 and $22,000 with images.'',
         td_params = [(''auto_make_model'', PStr ''toyota camry''), (''auto_transmission'', PStr ''1''), (''max_auto_miles'', PStr ''70000''), (''min_price'', PStr ''12000''), (''max_price'', PStr ''22000''), (''hasPic'', PStr ''1'')],
         td_difficulty = ''hard'' \<rparr>,
      \<lparr> td_task = ''Search for Honda CR-V SUVs with 4WD from 2019 or newer under $30,000 with photos.'',
         td_params = [(''auto_make_model'', PStr ''honda cr-v''), (''auto_bodytype'', PStr ''10''), (''auto_drivetrain'', PStr ''3''), (''min_auto_year'', PStr ''2019''), (''max_price'', PStr ''30000''), (''hasPic'', PStr ''1'')],
         td_difficulty = ''hard'' \<rparr>
     ]"

definition motorcycle_tasks :: "task_data list" where
  "motorcycle_tasks =
     [
      \<lparr> td_task = ''Find Harley-Davidson motorcycles with images priced under $15,000.'',
         td_params = [(''auto_make_model'', PStr ''harley''), (''hasPic'', PStr ''1''), (''max_price'', PStr ''15000'')],
         td_difficulty = ''hard'' \<rparr>,
      \<lparr> td_task = ''Browse Honda motorcycles sold by owners.'',
         td_params = [(''auto_make_model'', PStr ''honda''), (''purveyor'', PStr ''owner'')],
         td_difficulty = ''medium'' \<rparr>,
      \<lparr> td_task = ''Find Yamaha motorcycles priced between $4,000 and $10,000.'',
         td_params = [(''auto_make_model'', PStr ''yamaha''), (''min_price'', PStr ''4000''), (''max_price'', PStr ''10000'')],
         td_difficulty = ''hard'' \<rparr>,
      \<lparr> td_task = ''Search for Kawasaki Ninja motorcycles with images.'',
         td_params = [(''auto_make_model'', PStr ''kawasaki ninja''), (''hasPic'', PStr ''1'')],
         td_difficulty = ''medium'' \<rparr>,
      \<lparr> td_task = ''Browse BMW motorcycles under $18,000 with photos.'',
         td_params = [(''auto_make_model'', PStr ''bmw''), (''max_price'', PStr ''18000''), (''hasPic'', PStr ''1'')],
         td_difficulty = ''hard'' \<rparr>,
      \<lparr> td_task = ''Find Ducati motorcycles sold by owners with images.'',
         td_params = [(''auto_make_model'', PStr ''ducati''), (''purveyor'', PStr ''owner''), (''hasPic'', PStr ''1'')],
         td_difficulty = ''hard'' \<rparr>,
      \<lparr> td_task = ''Find motorcycles from 2020 or newer with images.'',
         td_params = [(''min_auto_year'', PStr ''2020''), (''hasPic'', PStr ''1'')],
         td_difficulty = ''medium'' \<rparr>,
      \<lparr> td_task = ''Browse vintage motorcycles from 1990 or older with photos.'',
         td_params = [(''max_auto_year'', PStr ''1990''), (''hasPic'', PStr ''1'')],
         td_difficulty = ''medium'' \<rparr>,
      \<lparr> td_task = ''Find motorcycles between 2017 and 2022 priced under $12,000.'',
         td_params = [(''min_auto_year'', PStr ''2017''), (''max_auto_year'', PStr ''2022''), (''max_price'', PStr ''12000'')],
         td_difficulty = ''hard'' \<rparr>,
      \<lparr> td_task = ''Find low mileage motorcycles under 10,000 miles with images.'',
         td_params = [(''max_auto_miles'', PStr ''10000''), (''hasPic'', PStr ''1'')],
         td_difficulty = ''medium'' \<rparr>,
      \<lparr> td_task = ''Browse motorcycles with less than 25,000 miles priced under $8,000.'',
         td_params = [(''max_auto_miles'', PStr ''25000''), (''max_price'', PStr ''8000'')],
         td_difficulty = ''hard'' \<rparr>,
      \<lparr> td_task = ''Find new condition motorcycles with images.'',
         td_params = [(''condition'', PStr ''10''), (''hasPic'', PStr ''1'')],
         td_difficulty = ''medium'' \<rparr>,
      \<lparr> td_task = ''Browse motorcycles in excellent condition under $10,000.'',
         td_params = [(''condition'', PStr ''30''), (''max_price'', PStr ''10000'')],
         td_difficulty = ''hard'' \<rparr>,
      \<lparr> td_task = ''Find like-new motorcycles sold by owners.'',
         td_params = [(''condition'', PStr ''20''), (''purveyor'', PStr ''owner'')],
         td_difficulty = ''medium'' \<rparr>,
      \<lparr> td_task = ''Find sport bikes under $9,000 with images.'',
         td_params = [(''query'', PStr ''sport bike''), (''hasPic'', PStr ''1''), (''max_price'', PStr ''9000'')],
         td_difficulty = ''hard'' \<rparr>,
      \<lparr> td_task = ''Browse cruiser motorcycles sold by owners with photos.'',
         td_params = [(''query'', PStr ''cruiser''), (''purveyor'', PStr ''owner''), (''hasPic'', PStr ''1'')],
         td_difficulty = ''hard'' \<rparr>,
      \<lparr> td_task = ''Search for touring motorcycles priced between $8,000 and $20,000.'',
         td_params = [(''query'', PStr ''touring''), (''min_price'', PStr ''8000''), (''max_price'', PStr ''20000'')],
         td_difficulty = ''hard'' \<rparr>,
      \<lparr> td_task = ''Find dirt bikes under $6,000 with images.'',
         td_params = [(''query'', PStr ''dirt bike''), (''hasPic'', PStr ''1''), (''max_price'', PStr ''6000'')],
         td_difficulty = ''hard'' \<rparr>,
      \<lparr> td_task = ''Browse adventure motorcycles with photos.'',
         td_params = [(''query'', PStr ''adventure''), (''hasPic'', PStr ''1'')],
         td_difficulty = ''medium'' \<rparr>,
      \<lparr> td_task = ''Find motorcycles under $5,000 sorted by lowest price with images.'',
         td_params = [(''max_price'', PStr ''5000''), (''sort'', PStr ''priceasc''), (''hasPic'', PStr ''1'')],
         td_difficulty = ''hard'' \<rparr>,
      \<lparr> td_task = ''Browse Harley-Davidson motorcycles sorted by newest listings.'',
         td_params = [(''auto_make_model'', PStr ''harley''), (''sort'', PStr ''date'')],
         td_difficulty = ''medium'' \<rparr>,
      \<lparr> td_task = ''Find Harley-Davidson touring motorcycles from 2018 or newer under $22,000 with images.'',
         td_params = [(''auto_make_model'', PStr ''harley''), (''query'', PStr ''touring''), (''min_auto_year'', PStr ''2018''), (''max_price'', PStr ''22000''), (''hasPic'', PStr ''1'')],
         td_difficulty = ''hard'' \<rparr>,
      \<lparr> td_task = ''Browse Honda sport bikes with less than 15,000 miles from owners.'',
         td_params = [(''auto_make_model'', PStr ''honda''), (''query'', PStr ''sport''), (''max_auto_miles'', PStr ''15000''), (''purveyor'', PStr ''owner'')],
         td_difficulty = ''hard'' \<rparr>,
      \<lparr> td_task = ''Find Suzuki motorcycles in excellent condition priced between $3,000 and $8,000.'',
         td_params = [(''auto_make_model'', PStr ''suzuki''), (''condition'', PStr ''30''), (''min_price'', PStr ''3000''), (''max_price'', PStr ''8000'')],
         td_difficulty = ''hard'' \<rparr>,
      \<lparr> td_task = ''Search for KTM dirt bikes under $7,000 with photos from owners.'',
         td_params = [(''auto_make_model'', PStr ''ktm''), (''query'', PStr ''dirt''), (''max_price'', PStr ''7000''), (''hasPic'', PStr ''1''), (''purveyor'', PStr ''owner'')],
         td_difficulty = ''hard'' \<rparr>
     ]"

definition rv_tasks :: "task_data list" where
  "rv_tasks =
     [
      \<lparr> td_task = ''Find Class A motorhomes with images priced under $60,000.'',
         td_params = [(''query'', PStr ''class a motorhome''), (''hasPic'', PStr ''1''), (''max_price'', PStr ''60000'')],
         td_difficulty = ''hard'' \<rparr>,
      \<lparr> td_task = ''Browse Class B camper vans sold by owners.'',
         td_params = [(''query'', PStr ''class b''), (''purveyor'', PStr ''owner'')],
         td_difficulty = ''medium'' \<rparr>,
      \<lparr> td_task = ''Search for Class C motorhomes priced between $35,000 and $75,000.'',
         td_params = [(''query'', PStr ''class c motorhome''), (''min_price'', PStr ''35000''), (''max_price'', PStr ''75000'')],
         td_difficulty = ''hard'' \<rparr>,
      \<lparr> td_task = ''Find travel trailers under $18,000 with images.'',
         td_params = [(''query'', PStr ''travel trailer''), (''hasPic'', PStr ''1''), (''max_price'', PStr ''18000'')],
         td_difficulty = ''hard'' \<rparr>,
      \<lparr> td_task = ''Browse fifth wheel trailers from dealers with photos.'',
         td_params = [(''query'', PStr ''fifth wheel''), (''purveyor'', PStr ''dealer''), (''hasPic'', PStr ''1'')],
         td_difficulty = ''hard'' \<rparr>,
      \<lparr> td_task = ''Find pop-up campers under $7,000 with images.'',
         td_params = [(''query'', PStr ''pop up camper''), (''max_price'', PStr ''7000''), (''hasPic'', PStr ''1'')],
         td_difficulty = ''hard'' \<rparr>,
      \<lparr> td_task = ''Search for toy haulers priced under $45,000 with photos.'',
         td_params = [(''query'', PStr ''toy hauler''), (''hasPic'', PStr ''1''), (''max_price'', PStr ''45000'')],
         td_difficulty = ''hard'' \<rparr>,
      \<lparr> td_task = ''Find truck campers under $12,000 sold by owners.'',
         td_params = [(''query'', PStr ''truck camper''), (''max_price'', PStr ''12000''), (''purveyor'', PStr ''owner'')],
         td_difficulty = ''hard'' \<rparr>,
      \<lparr> td_task = ''Find Airstream trailers with images.'',
         td_params = [(''query'', PStr ''airstream''), (''hasPic'', PStr ''1'')],
         td_difficulty = ''medium'' \<rparr>,
      \<lparr> td_task = ''Browse Winnebago motorhomes under $70,000 with photos.'',
         td_params = [(''query'', PStr ''winnebago''), (''max_price'', PStr ''70000''), (''hasPic'', PStr ''1'')],
         td_difficulty = ''hard'' \<rparr>,
      \<lparr> td_task = ''Search for Jayco RVs sold by owners.'',
         td_params = [(''query'', PStr ''jayco''), (''purveyor'', PStr ''owner'')],
         td_difficulty = ''medium'' \<rparr>,
      \<lparr> td_task = ''Find Forest River trailers priced between $12,000 and $30,000.'',
         td_params = [(''query'', PStr ''forest river''), (''min_price'', PStr ''12000''), (''max_price'', PStr ''30000'')],
         td_difficulty = ''hard'' \<rparr>,
      \<lparr> td_task = ''Browse Keystone RVs under $28,000 with images.'',
         td_params = [(''query'', PStr ''keystone''), (''max_price'', PStr ''28000''), (''hasPic'', PStr ''1'')],
         td_difficulty = ''hard'' \<rparr>,
      \<lparr> td_task = ''Find new condition RVs with images.'',
         td_params = [(''condition'', PStr ''10''), (''hasPic'', PStr ''1'')],
         td_difficulty = ''medium'' \<rparr>,
      \<lparr> td_task = ''Browse travel trailers in excellent condition under $25,000.'',
         td_params = [(''query'', PStr ''travel trailer''), (''condition'', PStr ''30''), (''max_price'', PStr ''25000'')],
         td_difficulty = ''hard'' \<rparr>,
      \<lparr> td_task = ''Find motorhomes in like-new condition from owners.'',
         td_params = [(''query'', PStr ''motorhome''), (''condition'', PStr ''20''), (''purveyor'', PStr ''owner'')],
         td_difficulty = ''hard'' \<rparr>,
      \<lparr> td_task = ''Find RVs under $15,000 sorted by lowest price with images.'',
         td_params = [(''max_price'', PStr ''15000''), (''sort'', PStr ''priceasc''), (''hasPic'', PStr ''1'')],
         td_difficulty = ''hard'' \<rparr>,
      \<lparr> td_task = ''Browse travel trailers sorted by newest listings.'',
         td_params = [(''query'', PStr ''travel trailer''), (''sort'', PStr ''date'')],
         td_difficulty = ''medium'' \<rparr>,
      \<lparr> td_task = ''Find Airstream travel trailers in excellent condition under $90,000 with images.'',
         td_params = [(''query'', PStr ''airstream''), (''condition'', PStr ''30''), (''max_price'', PStr ''90000''), (''hasPic'', PStr ''1'')],
         td_difficulty = ''hard'' \<rparr>,
      \<lparr> td_task = ''Browse diesel motorhomes priced between $40,000 and $120,000.'',
         td_params = [(''query'', PStr ''diesel motorhome''), (''min_price'', PStr ''40000''), (''max_price'', PStr ''120000'')],
         td_difficulty = ''hard'' \<rparr>,
      \<lparr> td_task = ''Find teardrop trailers under $15,000 sold by owners with photos.'',
         td_params = [(''query'', PStr ''teardrop''), (''max_price'', PStr ''15000''), (''purveyor'', PStr ''owner''), (''hasPic'', PStr ''1'')],
         td_difficulty = ''hard'' \<rparr>,
      \<lparr> td_task = ''Search for van conversions under $50,000 with images from owners.'',
         td_params = [(''query'', PStr ''van conversion''), (''max_price'', PStr ''50000''), (''hasPic'', PStr ''1''), (''purveyor'', PStr ''owner'')],
         td_difficulty = ''hard'' \<rparr>,
      \<lparr> td_task = ''Find hybrid travel trailers under $35,000 with photos.'',
         td_params = [(''query'', PStr ''hybrid trailer''), (''max_price'', PStr ''35000''), (''hasPic'', PStr ''1'')],
         td_difficulty = ''hard'' \<rparr>
     ]"

definition boat_tasks :: "task_data list" where
  "boat_tasks =
     [
      \<lparr> td_task = ''Find fishing boats with images priced under $18,000.'',
         td_params = [(''query'', PStr ''fishing boat''), (''hasPic'', PStr ''1''), (''max_price'', PStr ''18000'')],
         td_difficulty = ''hard'' \<rparr>,
      \<lparr> td_task = ''Browse sailboats sold by owners with photos.'',
         td_params = [(''query'', PStr ''sailboat''), (''purveyor'', PStr ''owner''), (''hasPic'', PStr ''1'')],
         td_difficulty = ''hard'' \<rparr>,
      \<lparr> td_task = ''Search for pontoon boats priced between $12,000 and $35,000.'',
         td_params = [(''query'', PStr ''pontoon''), (''min_price'', PStr ''12000''), (''max_price'', PStr ''35000'')],
         td_difficulty = ''hard'' \<rparr>,
      \<lparr> td_task = ''Find bass boats under $22,000 with images.'',
         td_params = [(''query'', PStr ''bass boat''), (''hasPic'', PStr ''1''), (''max_price'', PStr ''22000'')],
         td_difficulty = ''hard'' \<rparr>,
      \<lparr> td_task = ''Browse center console boats from dealers.'',
         td_params = [(''query'', PStr ''center console''), (''purveyor'', PStr ''dealer'')],
         td_difficulty = ''medium'' \<rparr>,
      \<lparr> td_task = ''Find ski boats priced under $28,000 with photos.'',
         td_params = [(''query'', PStr ''ski boat''), (''hasPic'', PStr ''1''), (''max_price'', PStr ''28000'')],
         td_difficulty = ''hard'' \<rparr>,
      \<lparr> td_task = ''Search for bowrider boats priced between $15,000 and $30,000.'',
         td_params = [(''query'', PStr ''bowrider''), (''min_price'', PStr ''15000''), (''max_price'', PStr ''30000'')],
         td_difficulty = ''hard'' \<rparr>,
      \<lparr> td_task = ''Find cabin cruiser boats with images.'',
         td_params = [(''query'', PStr ''cabin cruiser''), (''hasPic'', PStr ''1'')],
         td_difficulty = ''medium'' \<rparr>,
      \<lparr> td_task = ''Find kayaks with photos sorted by lowest price.'',
         td_params = [(''query'', PStr ''kayak''), (''hasPic'', PStr ''1''), (''sort'', PStr ''priceasc'')],
         td_difficulty = ''medium'' \<rparr>,
      \<lparr> td_task = ''Browse canoes under $800 sold by owners.'',
         td_params = [(''query'', PStr ''canoe''), (''max_price'', PStr ''800''), (''purveyor'', PStr ''owner'')],
         td_difficulty = ''hard'' \<rparr>,
      \<lparr> td_task = ''Find jet skis under $9,000 with images.'',
         td_params = [(''query'', PStr ''jet ski''), (''hasPic'', PStr ''1''), (''max_price'', PStr ''9000'')],
         td_difficulty = ''hard'' \<rparr>,
      \<lparr> td_task = ''Search for paddleboards with photos from owners.'',
         td_params = [(''query'', PStr ''paddleboard''), (''hasPic'', PStr ''1''), (''purveyor'', PStr ''owner'')],
         td_difficulty = ''medium'' \<rparr>,
      \<lparr> td_task = ''Find Boston Whaler boats with images under $40,000.'',
         td_params = [(''query'', PStr ''boston whaler''), (''hasPic'', PStr ''1''), (''max_price'', PStr ''40000'')],
         td_difficulty = ''hard'' \<rparr>,
      \<lparr> td_task = ''Browse Sea Ray boats priced between $25,000 and $55,000.'',
         td_params = [(''query'', PStr ''sea ray''), (''min_price'', PStr ''25000''), (''max_price'', PStr ''55000'')],
         td_difficulty = ''hard'' \<rparr>,
      \<lparr> td_task = ''Find Bayliner boats under $16,000 with photos.'',
         td_params = [(''query'', PStr ''bayliner''), (''max_price'', PStr ''16000''), (''hasPic'', PStr ''1'')],
         td_difficulty = ''hard'' \<rparr>,
      \<lparr> td_task = ''Find boats in excellent condition with images.'',
         td_params = [(''condition'', PStr ''30''), (''hasPic'', PStr ''1'')],
         td_difficulty = ''medium'' \<rparr>,
      \<lparr> td_task = ''Browse like-new fishing boats under $30,000.'',
         td_params = [(''query'', PStr ''fishing boat''), (''condition'', PStr ''20''), (''max_price'', PStr ''30000'')],
         td_difficulty = ''hard'' \<rparr>,
      \<lparr> td_task = ''Find boats under $10,000 sorted by lowest price with images.'',
         td_params = [(''max_price'', PStr ''10000''), (''sort'', PStr ''priceasc''), (''hasPic'', PStr ''1'')],
         td_difficulty = ''hard'' \<rparr>,
      \<lparr> td_task = ''Browse pontoon boats sorted by newest listings.'',
         td_params = [(''query'', PStr ''pontoon''), (''sort'', PStr ''date'')],
         td_difficulty = ''medium'' \<rparr>,
      \<lparr> td_task = ''Find aluminum fishing boats under $14,000 with images from owners.'',
         td_params = [(''query'', PStr ''aluminum fishing boat''), (''hasPic'', PStr ''1''), (''max_price'', PStr ''14000''), (''purveyor'', PStr ''owner'')],
         td_difficulty = ''hard'' \<rparr>,
      \<lparr> td_task = ''Browse Yamaha jet skis under $12,000 sold by owners with photos.'',
         td_params = [(''query'', PStr ''yamaha jet ski''), (''max_price'', PStr ''12000''), (''purveyor'', PStr ''owner''), (''hasPic'', PStr ''1'')],
         td_difficulty = ''hard'' \<rparr>,
      \<lparr> td_task = ''Find boat trailers under $2,500 with images from owners.'',
         td_params = [(''query'', PStr ''boat trailer''), (''max_price'', PStr ''2500''), (''hasPic'', PStr ''1''), (''purveyor'', PStr ''owner'')],
         td_difficulty = ''hard'' \<rparr>
     ]"

section \<open>The category generators\<close>

text \<open>
  \<^verbatim>\<open>REGIONS[region]\<close> raises \<^verbatim>\<open>KeyError\<close> for an unknown key. The loop over
  \<^verbatim>\<open>enumerate(...)\<close> appends one record per entry, which is a \<^const>\<open>map\<close>; the body
  of each loop is a function of its own (\<open>cars_trucks_task\<close> and its siblings).
\<close>

definition cars_trucks_task :: "region_config \<Rightarrow> nat \<Rightarrow> task_data \<Rightarrow> TaskConfig" where
  "cars_trucks_task region_config i task_data =
     (let base_url = url_prefix region_config;
          gt_url = build_url base_url ''cta'' (td_params task_data)
      in \<lparr> task_id = ''navi_bench/craigslist/cars_trucks/'' @ str_nat i,
           task = td_task task_data,
           url = base_url @ ''/search/cta'',
           gt_urls = [[gt_url]],
           location = region_location region_config,
           timezone = region_timezone region_config,
           difficulty = td_difficulty task_data,
           l2_category = ''cars_trucks'' \<rparr>)"

definition generate_cars_trucks_tasks :: "string \<Rightarrow> error + TaskConfig list" where
  "generate_cars_trucks_tasks region_key =
     (case map_of REGIONS region_key of
        None \<Rightarrow> Inl (KeyError region_key)
      | Some region_config \<Rightarrow>
          Inr (map (\<lambda>(i, task_data). cars_trucks_task region_config i task_data)
                 (enumerate 0 car_tasks)))"

definition motorcycles_task :: "region_config \<Rightarrow> nat \<Rightarrow> task_data \<Rightarrow> TaskConfig" where
  "motorcycles_task region_config i task_data =
     (let base_url = url_prefix region_config;
          gt_url = build_url base_url ''mca'' (td_params task_data)
      in \<lparr> task_id = ''navi_bench/craigslist/motorcycles/'' @ str_nat i,
           task = td_task task_data,
           url = base_url @ ''/search/mca'',
           gt_urls = [[gt_url]],
           location = region_location region_config,
           timezone = region_timezone region_config,
           difficulty = td_difficulty task_data,
           l2_category = ''motorcycles'' \<rparr>)"

definition generate_motorcycles_tasks :: "string \<Rightarrow> error + TaskConfig list" where
  "generate_motorcycles_tasks region_key =
     (case map_of REGIONS region_key of
        None \<Rightarrow> Inl (KeyError region_key)
      | Some region_config \<Rightarrow>
          Inr (map (\<lambda>(i, task_data). motorcycles_task region_config i task_data)
                 (enumerate 0 motorcycle_tasks)))"

definition rvs_camp_task :: "region_config \<Rightarrow> nat \<Rightarrow> task_data \<Rightarrow> TaskConfig" where
  "rvs_camp_task region_config i task_data =
     (let base_url = url_prefix region_config;
          gt_url = build_url base_url ''rva'' (td_params task_data)
      in \<lparr> task_id = ''navi_bench/craigslist/rvs_camp/'' @ str_nat i,
           task = td_task task_data,
           url = base_url @ ''/search/rva'',
           gt_urls = [[gt_url]],
           location = region_location region_config,
           timezone = region_timezone region_config,
           difficulty = td_difficulty task_data,
           l2_category = ''rvs_camp'' \<rparr>)"

definition generate_rvs_camp_tasks :: "string \<Rightarrow> error + TaskConfig list" where
  "generate_rvs_camp_tasks region_key =
     (case map_of REGIONS region_key of
        None \<Rightarrow> Inl (KeyError region_key)
      | Some region_config \<Rightarrow>
          Inr (map (\<lambda>(i, task_data). rvs_camp_task region_config i task_data)
                 (enumerate 0 rv_tasks)))"

definition boats_task :: "region_config \<Rightarrow> nat \<Rightarrow> task_data \<Rightarrow> TaskConfig" where
  "boats_task region_config i task_data =
     (let base_url = url_prefix region_config;
          gt_url = build_url base_url ''boa'' (td_params task_data)
      in \<lparr> task_id = ''navi_bench/craigslist/boats/'' @ str_nat i,
           task = td_task task_data,
           url = base_url @ ''/search/boa'',
           gt_urls = [[gt_url]],
           location = region_location region_config,
           timezone = region_timezone region_config,
           difficulty = td_difficulty task_data,
           l2_category = ''boats'' \<rparr>)"

definition generate_boats_tasks :: "string \<Rightarrow> error + TaskConfig list" where
  "generate_boats_tasks region_key =
     (case map_of REGIONS region_key of
        None \<Rightarrow> Inl (KeyError region_key)
      | Some region_config \<Rightarrow>
          Inr (map (\<lambda>(i, task_data). boats_task region_config i task_data)
                 (enumerate 0 boat_tasks)))"

section \<open>CSV export\<close>

text \<open>
  \<^verbatim>\<open>json.dumps\<close> with its defaults: \<^verbatim>\<open>ensure_ascii\<close> escapes every character outside
  the printable ASCII range, items are separated by a comma and a space, keys from
  values by a colon and a space.
\<close>

definition json_u_escape :: "nat \<Rightarrow> string" where
  "json_u_escape n =
     [backslash_chr, CHR ''u'', CHR ''0'', CHR ''0'', hex_lower (n div 16), hex_lower (n mod 16)]"

definition json_char :: "char \<Rightarrow> string" where
  "json_char c =
     (let n = (of_char c :: nat) in
      if c = dquote_chr then [backslash_chr, dquote_chr]
      else if c = backslash_chr then [backslash_chr, backslash_chr]
      else if n = 10 then [backslash_chr, CHR ''n'']
      else if n = 13 then [backslash_chr, CHR ''r'']
      else if n = 9 then [backslash_chr, CHR ''t'']
      else if n = 12 then [backslash_chr, CHR ''f'']
      else if n = 8 then [backslash_chr, CHR ''b'']
      else if n < 32 \<or> 126 < n then json_u_escape n
      else [c])"

definition json_string :: "string \<Rightarrow> string" where
  "json_string s = dquote_chr # concat (map json_char s) @ [dquote_chr]"

fun json_dumps :: "pyval \<Rightarrow> string" where
  "json_dumps (PStr s) = json_string s"
| "json_dumps (PInt i) = str_int i"
| "json_dumps (PBool b) = (if b then ''true'' else ''false'')"
| "json_dumps PNone = ''null''"
| "json_dumps (PList vs) = ''['' @ join '', '' (map json_dumps vs) @ '']''"
| "json_dumps (PDict kvs) =
     ''{'' @ join '', '' (map (\<lambda>(k, v). json_string k @ '': '' @ json_dumps v) kvs) @ ''}''"

definition task_to_csv_row :: "TaskConfig \<Rightarrow> (string \<times> pyval) list" where
  "task_to_csv_row t =
     (let task_generation_config = PDict
            [(''_target_'',
                PStr ''navi_bench.craigslist.craigslist_url_match.generate_task_config''),
             (''url'', PStr (url t)),
             (''task'', PStr (task t)),
             (''location'', PStr (location t)),
             (''timezone'', PStr (timezone t)),
             (''gt_urls'', PList (map (\<lambda>us. PList (map PStr us)) (gt_urls t)))]
      in [(''task_id'', PStr (task_id t)),
          (''task_generation_config_json'', PStr (json_dumps task_generation_config)),
          (''env'', PStr ''real''),
          (''domain'', PStr ''craigslist''),
          (''l1_category'', PStr ''marketplace''),
          (''l2_category'', PStr (l2_category t)),
          (''suggested_difficulty'', PStr (difficulty t)),
          (''suggested_hint'', PStr ''null''),
          (''suggested_max_steps'', PInt 0),
          (''suggested_split'', PStr ''validation''),
          (''metadata_json'', PStr ''null'')])"

definition fieldnames :: "string list" where
  "fieldnames =
     [''task_id'', ''task_generation_config_json'', ''env'', ''domain'',
      ''l1_category'', ''l2_category'', ''suggested_difficulty'',
      ''suggested_hint'', ''suggested_max_steps'', ''suggested_split'', ''metadata_json'']"

text \<open>
  \<^verbatim>\<open>csv.DictWriter\<close> with its defaults. A row dictionary with a key outside the field
  names raises \<^verbatim>\<open>ValueError\<close>; a missing key reads as the empty string. The writer
  turns \<^verbatim>\<open>None\<close> into the empty string and any other non-string into its \<^verbatim>\<open>str\<close>;
  a field is quoted when it holds a comma, a double quote, a carriage return or a
  line feed, and a quoted field doubles its double quotes; lines end with CR LF.
\<close>

definition dict_to_list :: "string list \<Rightarrow> (string \<times> pyval) list \<Rightarrow> error + pyval list" where
  "dict_to_list names rowdict =
     (if \<exists>k \<in> set (map fst rowdict). k \<notin> set names then Inl ValueError
      else Inr (map (\<lambda>k. case map_of rowdict k of Some v \<Rightarrow> v | None \<Rightarrow> PStr []) names))"

definition csv_field :: "pyval \<Rightarrow> string" where
  "csv_field v = (case v of PNone \<Rightarrow> [] | _ \<Rightarrow> py_str v)"

definition csv_special :: "char \<Rightarrow> bool" where
  "csv_special c \<longleftrightarrow> c = CHR '','' \<or> c = dquote_chr \<or> c = CHR 0x0D \<or> c = CHR 0x0A"

definition csv_quote_field :: "string \<Rightarrow> string" where
  "csv_quote_field s =
     (if list_ex csv_special s
      then dquote_chr # concat (map (\<lambda>c. if c = dquote_chr then [c, c] else [c]) s) @ [dquote_chr]
      else s)"

definition csv_line :: "string list \<Rightarrow> string" where
  "csv_line cells =
     (if cells = [[]] then [dquote_chr, dquote_chr]
      else join '','' (map csv_quote_field cells)) @ [CHR 0x0D, CHR 0x0A]"

text \<open>The cells of the row written for one task, before quoting.\<close>

definition row_cells :: "TaskConfig \<Rightarrow> error + string list" where
  "row_cells t =
     (case dict_to_list fieldnames (task_to_csv_row t) of
        Inl e \<Rightarrow> Inl e
      | Inr vs \<Rightarrow> Inr (map csv_field vs))"

text \<open>
  The loop \<^verbatim>\<open>for task in all_tasks: writer.writerow(...)\<close>, with the text written so
  far as accumulator; an error leaves what was written before it.
\<close>

fun write_rows :: "TaskConfig list \<Rightarrow> string \<Rightarrow> (error + unit) \<times> string" where
  "write_rows [] written = (Inr (), written)"
| "write_rows (t # ts) written =
     (case row_cells t of
        Inl e \<Rightarrow> (Inl e, written)
      | Inr cells \<Rightarrow> write_rows ts (written @ csv_line cells))"

section \<open>The entry point\<close>

text \<open>
  The parsed command line. \<^verbatim>\<open>--region\<close> is checked against the keys of
  \<^verbatim>\<open>REGIONS\<close>; a value outside them ends the program with exit status 2 before
  anything else runs. An absent option takes its default. The field \<^verbatim>\<open>output\<close> of the
  parsed arguments is named \<open>output_path\<close> here.
\<close>

record namespace =
  output_path :: string
  region :: string

definition parse_args :: "string option \<Rightarrow> string option \<Rightarrow> error + namespace" where
  "parse_args output_opt region_opt =
     (let out = (case output_opt of None \<Rightarrow> ''dataset_100.csv'' | Some p \<Rightarrow> p) in
      case region_opt of
        None \<Rightarrow> Inr \<lparr> output_path = out, region = ''sfbay'' \<rparr>
      | Some r \<Rightarrow>
          if r \<in> set (map fst REGIONS) then Inr \<lparr> output_path = out, region = r \<rparr>
          else Inl (SystemExit 2))"

type_synonym generator = "string \<times> (string \<Rightarrow> error + TaskConfig list)"

definition generators :: "generator list" where
  "generators =
     [(''cars_trucks'', generate_cars_trucks_tasks),
      (''motorcycles'', generate_motorcycles_tasks),
      (''rvs_camp'', generate_rvs_camp_tasks),
      (''boats'', generate_boats_tasks)]"

text \<open>
  The loop \<^verbatim>\<open>for category_name, generator_func in generators\<close>, extending
  \<^verbatim>\<open>all_tasks\<close>; an exception of a generator ends it.
\<close>

fun run_generators :: "generator list \<Rightarrow> string \<Rightarrow> TaskConfig list \<Rightarrow> error + TaskConfig list" where
  "run_generators [] region_key all_tasks = Inr all_tasks"
| "run_generators ((category_name, generator_func) # gs) region_key all_tasks =
     (case generator_func region_key of
        Inl e \<Rightarrow> Inl e
      | Inr tasks \<Rightarrow> run_generators gs region_key (all_tasks @ tasks))"

text \<open>
  The file system is a map from paths to contents. \<^verbatim>\<open>open(path, "w", newline="")\<close>
  replaces the content of the path and translates no line ending; it is taken to
  succeed. Console output is not part of the model. The body of \<^verbatim>\<open>main\<close> is stated
  for any list of generators, \<^verbatim>\<open>main\<close> itself runs it on \<^const>\<open>generators\<close>.
\<close>

type_synonym filesystem = "string \<rightharpoonup> string"

definition main_with ::
  "generator list \<Rightarrow> string option \<Rightarrow> string option \<Rightarrow> filesystem \<Rightarrow> (error + unit) \<times> filesystem" where
  "main_with gens output_opt region_opt fs =
     (case parse_args output_opt region_opt of
        Inl e \<Rightarrow> (Inl e, fs)
      | Inr args \<Rightarrow>
          (case run_generators gens (region args) [] of
             Inl e \<Rightarrow> (Inl e, fs)
           | Inr all_tasks \<Rightarrow>
               if length all_tasks \<noteq> 100
               then (Inl (AssertionError
                       (''Expected 100 tasks, got '' @ str_nat (length all_tasks))), fs)
               else (case write_rows all_tasks (csv_line fieldnames) of
                       (result, written) \<Rightarrow> (result, fs(output_path args \<mapsto> written)))))"

definition main :: "string option \<Rightarrow> string option \<Rightarrow> filesystem \<Rightarrow> (error + unit) \<times> filesystem" where
  "main = main_with generators"

section \<open>Reference descriptions\<close>

text \<open>
  The records the four generators give for one region, in the order in which
  \<^verbatim>\<open>main\<close> collects them.
\<close>

definition region_tasks :: "region_config \<Rightarrow> TaskConfig list" where
  "region_tasks rc =
     map (\<lambda>(i, td). cars_trucks_task rc i td) (enumerate 0 car_tasks)
     @ map (\<lambda>(i, td). motorcycles_task rc i td) (enumerate 0 motorcycle_tasks)
     @ map (\<lambda>(i, td). rvs_camp_task rc i td) (enumerate 0 rv_tasks)
     @ map (\<lambda>(i, td). boats_task rc i td) (enumerate 0 boat_tasks)"

text \<open>
  The eleven cells of a row as the specification lists the columns: the task's
  identifier, its JSON configuration, the constant environment, domain and first-level
  category, the task's second-level category and difficulty, and the four constant
  trailing columns.
\<close>

definition csv_cells :: "TaskConfig \<Rightarrow> string list" where
  "csv_cells t =
     [task_id t,
      json_dumps (PDict
        [(''_target_'', PStr ''navi_bench.craigslist.craigslist_url_match.generate_task_config''),
         (''url'', PStr (url t)),
         (''task'', PStr (task t)),
         (''location'', PStr (location t)),
         (''timezone'', PStr (timezone t)),
         (''gt_urls'', PList (map (\<lambda>us. PList (map PStr us)) (gt_urls t)))]),
      ''real'', ''craigslist'', ''marketplace'', l2_category t, difficulty t,
      ''null'', ''0'', ''validation'', ''null'']"

text \<open>The text of the CSV file for a list of task records: the header line, then one line per record.\<close>

definition csv_text :: "TaskConfig list \<Rightarrow> string" where
  "csv_text ts = csv_line fieldnames @ concat (map (\<lambda>t. csv_line (csv_cells t)) ts)"

section \<open>Properties of the URL builder\<close>

lemma of_char_lt_256: "(of_char c :: nat) < 256"
  by (cases c) simp

lemma hex_upper_not_space: "d < 16 \<Longrightarrow> hex_upper d \<noteq> CHR '' ''"
proof -
  assume "d < 16"
  then have "hex_upper d \<in> set ''0123456789ABCDEF''"
    unfolding hex_upper_def by (intro nth_mem) simp
  then show ?thesis by auto
qed

lemma percent_byte_no_space: "b < 256 \<Longrightarrow> CHR '' '' \<notin> set (percent_byte b)"
proof -
  assume b: "b < 256"
  then have "b div 16 < 16" and "b mod 16 < 16" by simp_all
  then show ?thesis
    using hex_upper_not_space [of "b div 16"] hex_upper_not_space [of "b mod 16"]
    by (auto simp: percent_byte_def)
qed

lemma utf8_encode_bytes: "b \<in> set (utf8_encode c) \<Longrightarrow> b < 256"
proof -
  assume b: "b \<in> set (utf8_encode c)"
  define n where "n = (of_char c :: nat)"
  have n: "n < 256" unfolding n_def by (rule of_char_lt_256)
  then have "n div 64 < 4" and "n mod 64 < 64" by simp_all
  with b n show ?thesis
    by (auto simp: utf8_encode_def Let_def n_def [symmetric] split: if_splits)
qed

lemma quote_char_no_space: "CHR '' '' \<notin> set (quote_char c)"
proof (cases "c \<in> set always_safe \<or> c = CHR ''/''")
  case True
  then have "c \<noteq> CHR '' ''" by (auto simp: always_safe_def)
  with True show ?thesis by (simp add: quote_char_def)
next
  case False
  then show ?thesis
    using percent_byte_no_space utf8_encode_bytes
    by (auto simp: quote_char_def)
qed

lemma quote_no_space: "CHR '' '' \<notin> set (quote s)"
  using quote_char_no_space by (auto simp: quote_def)

lemma quote_append: "quote (xs @ ys) = quote xs @ quote ys"
  by (simp add: quote_def)

lemma quote_space: "quote '' '' = ''%20''"
  by (simp add: quote_def quote_char_def always_safe_def utf8_encode_def percent_byte_def
      hex_upper_def)

lemma build_url_unfold:
  "build_url base code params =
     base @ ''/search/'' @ code
       @ (if params \<noteq> [] then ''?'' @ join ''&'' (concat (map encode_param params)) else [])
       @ ''#search=2~gallery~0''"
  by (simp add: build_url_def Let_def)

lemma build_url_prefix: "prefix base (build_url base code params)"
  by (simp add: build_url_unfold)


text \<open>
  C1. For every base URL, \<^verbatim>\<open>build_url(base, "cta", {})\<close> is the base followed by
  \<^verbatim>\<open>/search/cta#search=2~gallery~0\<close>: without parameters there is no query segment,
  and the fixed fragment is still appended.
\<close>

theorem build_url_no_params:
  "build_url base ''cta'' [] = base @ ''/search/cta#search=2~gallery~0''"
  by (simp add: build_url_def)

text \<open>
  C2. A parameter named \<^verbatim>\<open>query\<close> or \<^verbatim>\<open>auto_make_model\<close> is emitted as the single pair
  \<^verbatim>\<open>name=quote(str(value))\<close>; the pair never holds a literal space, every space of the
  value becoming \<^verbatim>\<open>%20\<close>; and the motorhome example of the specification has the
  URL shown.
\<close>

theorem build_url_quotes_free_text:
  assumes "key = ''query'' \<or> key = ''auto_make_model''"
  shows "encode_param (key, val) = [key @ ''='' @ quote (py_str val)]
       \<and> CHR '' '' \<notin> set (key @ ''='' @ quote (py_str val))
       \<and> quote (xs @ '' '' @ ys) = quote xs @ ''%20'' @ quote ys
       \<and> build_url base ''mca'' [(''query'', PStr ''class a motorhome'')]
           = base @ ''/search/mca?query=class%20a%20motorhome#search=2~gallery~0''"
proof -
  have pair: "encode_param (key, val) = [key @ ''='' @ quote (py_str val)]"
    using assms by auto
  have no_space: "CHR '' '' \<notin> set (key @ ''='' @ quote (py_str val))"
    using assms quote_no_space [of "py_str val"] by auto
  have spaces: "quote (xs @ '' '' @ ys) = quote xs @ ''%20'' @ quote ys"
    by (simp only: quote_append quote_space)
  have "quote ''class a motorhome'' = ''class%20a%20motorhome''"
    by code_simp
  then have example: "build_url base ''mca'' [(''query'', PStr ''class a motorhome'')]
           = base @ ''/search/mca?query=class%20a%20motorhome#search=2~gallery~0''"
    by (simp add: build_url_def)
  from pair no_space spaces example show ?thesis by blast
qed

theorem build_url_quotes_free_text_witness:
  "encode_param (''auto_make_model'', PStr ''honda accord'') = [''auto_make_model=honda%20accord'']
   \<and> CHR '' '' \<notin> set (''auto_make_model=honda%20accord'')
   \<and> quote (''honda'' @ '' '' @ ''accord'') = ''honda%20accord''
   \<and> build_url ''https://sfbay.craigslist.org'' ''mca'' [(''query'', PStr ''class a motorhome'')]
       = ''https://sfbay.craigslist.org/search/mca?query=class%20a%20motorhome#search=2~gallery~0''"
proof -
  have k: "''auto_make_model'' = ''query'' \<or> ''auto_make_model'' = ''auto_make_model''"
    by simp
  have q: "quote ''honda accord'' = ''honda%20accord''" "quote ''honda'' = ''honda''"
    "quote ''accord'' = ''accord''"
    by code_simp+
  from build_url_quotes_free_text [OF k, of "PStr ''honda accord''" "''honda''" "''accord''"
      "''https://sfbay.craigslist.org''"] q
  show ?thesis by simp
qed




text \<open>
  C10. Under the name \<^verbatim>\<open>query\<close> or \<^verbatim>\<open>auto_make_model\<close> a list is not expanded: the
  parameter gives exactly one pair, whose value is the percent-encoded string form of
  the whole list.
\<close>

theorem free_text_list_not_expanded:
  assumes "key = ''query'' \<or> key = ''auto_make_model''"
  shows "encode_param (key, PList vs)
           = [key @ ''='' @ quote (''['' @ join '', '' (map py_repr vs) @ '']'')]
       \<and> length (encode_param (key, PList vs)) = 1
       \<and> build_url base code [(key, PList vs)]
           = base @ ''/search/'' @ code @ ''?'' @ key @ ''=''
               @ quote (''['' @ join '', '' (map py_repr vs) @ '']'') @ ''#search=2~gallery~0''"
  using assms by (auto simp: build_url_unfold)

theorem free_text_list_not_expanded_witness:
  "encode_param (''auto_make_model'', PList [PStr ''honda'', PStr ''civic''])
     = [''auto_make_model=%5B%27honda%27%2C%20%27civic%27%5D'']
   \<and> build_url ''https://seattle.craigslist.org'' ''cta''
         [(''auto_make_model'', PList [PStr ''honda'', PStr ''civic''])]
     = ''https://seattle.craigslist.org/search/cta?auto_make_model=%5B%27honda%27%2C%20%27civic%27%5D#search=2~gallery~0''"
proof -
  have k: "''auto_make_model'' = ''query'' \<or> ''auto_make_model'' = ''auto_make_model''"
    by simp
  have q: "quote (''['' @ join '', '' (map py_repr [PStr ''honda'', PStr ''civic'']) @ '']'')
             = ''%5B%27honda%27%2C%20%27civic%27%5D''"
    by code_simp
  from free_text_list_not_expanded [OF k, of "[PStr ''honda'', PStr ''civic'']"
      "''https://seattle.craigslist.org''" "''cta''"] q
  show ?thesis by simp
qed

section \<open>Properties of the generators\<close>

lemma digit_chr_inj: "a < 10 \<Longrightarrow> b < 10 \<Longrightarrow> digit_chr a = digit_chr b \<Longrightarrow> a = b"
  by (simp add: digit_chr_def nth_eq_iff_index_eq)

lemma str_nat_nonempty: "str_nat n \<noteq> []"
  by (subst str_nat.simps) simp

lemma str_nat_inj: "str_nat n = str_nat m \<Longrightarrow> n = m"
proof (induction n arbitrary: m rule: str_nat.induct)
  case (1 n)
  show ?case
  proof (cases "n < 10")
    case n: True
    show ?thesis
    proof (cases "m < 10")
      case True
      with n "1.prems" show ?thesis
        by (simp add: str_nat.simps [of n] str_nat.simps [of m] digit_chr_inj)
    next
      case False
      with n "1.prems" str_nat_nonempty [of "m div 10"] show ?thesis
        by (simp add: str_nat.simps [of n] str_nat.simps [of m])
    qed
  next
    case n: False
    show ?thesis
    proof (cases "m < 10")
      case True
      with n "1.prems" str_nat_nonempty [of "n div 10"] show ?thesis
        by (simp add: str_nat.simps [of n] str_nat.simps [of m])
    next
      case False
      with n "1.prems" have eq: "str_nat (n div 10) = str_nat (m div 10)"
        and d: "digit_chr (n mod 10) = digit_chr (m mod 10)"
        by (simp_all add: str_nat.simps [of n] str_nat.simps [of m])
      from "1.IH" [OF n eq] have "n div 10 = m div 10" .
      moreover from d have "n mod 10 = m mod 10"
        by (rule digit_chr_inj [rotated 2]) simp_all
      ultimately show ?thesis
        by (metis div_mult_mod_eq)
    qed
  qed
qed

lemma distinct_numbered: "distinct (map (\<lambda>i. pre @ str_nat i) [0..<n])"
  by (auto simp: distinct_map inj_on_def dest: str_nat_inj)

lemma map_enumerate_proj:
  "(\<And>i x. g (F i x) = h i) \<Longrightarrow>
   map g (map (\<lambda>(i, x). F i x) (enumerate n xs)) = map h [n..<n + length xs]"
proof -
  assume gF: "\<And>i x. g (F i x) = h i"
  have "map g (map (\<lambda>(i, x). F i x) ps) = map h (map fst ps)" for ps
    by (simp add: comp_def case_prod_unfold gF)
  then have "map g (map (\<lambda>(i, x). F i x) (enumerate n xs)) = map h (map fst (enumerate n xs))" .
  then show ?thesis by (simp only: map_fst_enumerate)
qed

lemma nth_map_enumerate:
  "i < length xs \<Longrightarrow> map (\<lambda>(i, x). F i x) (enumerate 0 xs) ! i = F i (xs ! i)"
  by (simp add: nth_enumerate_eq)

lemma hd_map_enumerate:
  "xs \<noteq> [] \<Longrightarrow> hd (map (\<lambda>(i, x). F i x) (enumerate n xs)) = F n (hd xs)"
  by (cases xs) simp_all

lemma in_map_enumerate:
  "t \<in> set (map (\<lambda>(i, x). F i x) (enumerate n xs)) \<Longrightarrow> \<exists>i x. t = F i x"
  by auto

lemma length_car_tasks: "length car_tasks = 30"
  by (simp add: car_tasks_def)

lemma length_motorcycle_tasks: "length motorcycle_tasks = 25"
  by (simp add: motorcycle_tasks_def)

lemma length_rv_tasks: "length rv_tasks = 23"
  by (simp add: rv_tasks_def)

lemma length_boat_tasks: "length boat_tasks = 22"
  by (simp add: boat_tasks_def)

lemmas table_lengths = length_car_tasks length_motorcycle_tasks length_rv_tasks length_boat_tasks

lemma distinct_region_keys: "distinct (map fst REGIONS)"
  by (simp add: REGIONS_def)

lemma region_entry_lookup: "(r, rc) \<in> set REGIONS \<Longrightarrow> map_of REGIONS r = Some rc"
  using distinct_region_keys by (rule map_of_is_SomeI)

lemma region_key_lookup: "r \<in> set (map fst REGIONS) \<Longrightarrow> \<exists>rc. map_of REGIONS r = Some rc"
  by (metis map_of_eq_None_iff not_Some_eq set_map)

lemma cars_trucks_eq:
  "map_of REGIONS r = Some rc \<Longrightarrow>
   generate_cars_trucks_tasks r =
     Inr (map (\<lambda>(i, td). cars_trucks_task rc i td) (enumerate 0 car_tasks))"
  by (simp add: generate_cars_trucks_tasks_def)

lemma motorcycles_eq:
  "map_of REGIONS r = Some rc \<Longrightarrow>
   generate_motorcycles_tasks r =
     Inr (map (\<lambda>(i, td). motorcycles_task rc i td) (enumerate 0 motorcycle_tasks))"
  by (simp add: generate_motorcycles_tasks_def)

lemma rvs_camp_eq:
  "map_of REGIONS r = Some rc \<Longrightarrow>
   generate_rvs_camp_tasks r =
     Inr (map (\<lambda>(i, td). rvs_camp_task rc i td) (enumerate 0 rv_tasks))"
  by (simp add: generate_rvs_camp_tasks_def)

lemma boats_eq:
  "map_of REGIONS r = Some rc \<Longrightarrow>
   generate_boats_tasks r =
     Inr (map (\<lambda>(i, td). boats_task rc i td) (enumerate 0 boat_tasks))"
  by (simp add: generate_boats_tasks_def)

lemma run_generators_region:
  "map_of REGIONS r = Some rc \<Longrightarrow> run_generators generators r [] = Inr (region_tasks rc)"
  by (simp add: generators_def region_tasks_def cars_trucks_eq motorcycles_eq rvs_camp_eq boats_eq)

lemma length_region_tasks: "length (region_tasks rc) = 100"
  by (simp add: region_tasks_def table_lengths)

lemma region_task_ids:
  "map task_id (region_tasks rc) =
     map (\<lambda>i. ''navi_bench/craigslist/cars_trucks/'' @ str_nat i) [0..<30]
     @ map (\<lambda>i. ''navi_bench/craigslist/motorcycles/'' @ str_nat i) [0..<25]
     @ map (\<lambda>i. ''navi_bench/craigslist/rvs_camp/'' @ str_nat i) [0..<23]
     @ map (\<lambda>i. ''navi_bench/craigslist/boats/'' @ str_nat i) [0..<22]"
proof -
  have c: "map task_id (map (\<lambda>(i, td). cars_trucks_task rc i td) (enumerate 0 car_tasks))
             = map (\<lambda>i. ''navi_bench/craigslist/cars_trucks/'' @ str_nat i) [0..<30]"
    using map_enumerate_proj [of task_id "cars_trucks_task rc" _ 0 car_tasks]
    by (simp add: cars_trucks_task_def Let_def length_car_tasks)
  have m: "map task_id (map (\<lambda>(i, td). motorcycles_task rc i td) (enumerate 0 motorcycle_tasks))
             = map (\<lambda>i. ''navi_bench/craigslist/motorcycles/'' @ str_nat i) [0..<25]"
    using map_enumerate_proj [of task_id "motorcycles_task rc" _ 0 motorcycle_tasks]
    by (simp add: motorcycles_task_def Let_def length_motorcycle_tasks)
  have v: "map task_id (map (\<lambda>(i, td). rvs_camp_task rc i td) (enumerate 0 rv_tasks))
             = map (\<lambda>i. ''navi_bench/craigslist/rvs_camp/'' @ str_nat i) [0..<23]"
    using map_enumerate_proj [of task_id "rvs_camp_task rc" _ 0 rv_tasks]
    by (simp add: rvs_camp_task_def Let_def length_rv_tasks)
  have b: "map task_id (map (\<lambda>(i, td). boats_task rc i td) (enumerate 0 boat_tasks))
             = map (\<lambda>i. ''navi_bench/craigslist/boats/'' @ str_nat i) [0..<22]"
    using map_enumerate_proj [of task_id "boats_task rc" _ 0 boat_tasks]
    by (simp add: boats_task_def Let_def length_boat_tasks)
  show ?thesis
    unfolding region_tasks_def map_append c m v b ..
qed

lemma region_task_categories:
  "map l2_category (region_tasks rc) =
     replicate 30 ''cars_trucks'' @ replicate 25 ''motorcycles''
     @ replicate 23 ''rvs_camp'' @ replicate 22 ''boats''"
proof -
  have c: "map l2_category (map (\<lambda>(i, td). cars_trucks_task rc i td) (enumerate 0 car_tasks))
             = replicate 30 ''cars_trucks''"
    using map_enumerate_proj [of l2_category "cars_trucks_task rc" "\<lambda>i. ''cars_trucks''" 0 car_tasks]
    by (simp add: cars_trucks_task_def Let_def length_car_tasks map_replicate_const)
  have m: "map l2_category (map (\<lambda>(i, td). motorcycles_task rc i td) (enumerate 0 motorcycle_tasks))
             = replicate 25 ''motorcycles''"
    using map_enumerate_proj [of l2_category "motorcycles_task rc" "\<lambda>i. ''motorcycles''" 0 motorcycle_tasks]
    by (simp add: motorcycles_task_def Let_def length_motorcycle_tasks map_replicate_const)
  have v: "map l2_category (map (\<lambda>(i, td). rvs_camp_task rc i td) (enumerate 0 rv_tasks))
             = replicate 23 ''rvs_camp''"
    using map_enumerate_proj [of l2_category "rvs_camp_task rc" "\<lambda>i. ''rvs_camp''" 0 rv_tasks]
    by (simp add: rvs_camp_task_def Let_def length_rv_tasks map_replicate_const)
  have b: "map l2_category (map (\<lambda>(i, td). boats_task rc i td) (enumerate 0 boat_tasks))
             = replicate 22 ''boats''"
    using map_enumerate_proj [of l2_category "boats_task rc" "\<lambda>i. ''boats''" 0 boat_tasks]
    by (simp add: boats_task_def Let_def length_boat_tasks map_replicate_const)
  show ?thesis
    unfolding region_tasks_def map_append c m v b ..
qed

lemma count_by_category:
  "length (filter (\<lambda>t. l2_category t = c) ts) = length (filter (\<lambda>x. x = c) (map l2_category ts))"
  by (simp add: filter_map comp_def)

lemma distinct_region_task_ids: "distinct (map task_id (region_tasks rc))"
  unfolding region_task_ids
  using distinct_numbered [of "''navi_bench/craigslist/cars_trucks/''" 30]
    distinct_numbered [of "''navi_bench/craigslist/motorcycles/''" 25]
    distinct_numbered [of "''navi_bench/craigslist/rvs_camp/''" 23]
    distinct_numbered [of "''navi_bench/craigslist/boats/''" 22]
  by (auto simp del: upt_Suc)

lemma region_task_urls:
  "t \<in> set (region_tasks rc) \<Longrightarrow>
   prefix (url_prefix rc) (url t)
   \<and> (\<forall>us \<in> set (gt_urls t). \<forall>u \<in> set us. prefix (url_prefix rc) u)"
  unfolding region_tasks_def set_append Un_iff
  by (auto simp: cars_trucks_task_def motorcycles_task_def rvs_camp_task_def boats_task_def
      Let_def build_url_prefix)

section \<open>Properties of the CSV export and of the entry point\<close>

lemma row_cells_eq: "row_cells t = Inr (csv_cells t)"
  by (simp add: row_cells_def dict_to_list_def task_to_csv_row_def fieldnames_def csv_field_def
      csv_cells_def Let_def str_int_def str_nat.simps [of 0] digit_chr_def)

lemma write_rows_eq:
  "write_rows ts written = (Inr (), written @ concat (map (\<lambda>t. csv_line (csv_cells t)) ts))"
  by (induction ts arbitrary: written) (simp_all add: row_cells_eq)


lemma main_with_count_mismatch:
  "parse_args output_opt region_opt = Inr args \<Longrightarrow>
   run_generators gens (region args) [] = Inr ts \<Longrightarrow> length ts \<noteq> 100 \<Longrightarrow>
   main_with gens output_opt region_opt fs
     = (Inl (AssertionError (''Expected 100 tasks, got '' @ str_nat (length ts))), fs)"
  by (simp add: main_with_def)

lemma main_with_count_ok:
  "parse_args output_opt region_opt = Inr args \<Longrightarrow>
   run_generators gens (region args) [] = Inr ts \<Longrightarrow> length ts = 100 \<Longrightarrow>
   main_with gens output_opt region_opt fs = (Inr (), fs(output_path args \<mapsto> csv_text ts))"
  by (simp add: main_with_def write_rows_eq csv_text_def)

lemma main_valid_region:
  "parse_args output_opt region_opt = Inr args \<Longrightarrow> map_of REGIONS (region args) = Some rc \<Longrightarrow>
   main output_opt region_opt fs = (Inr (), fs(output_path args \<mapsto> csv_text (region_tasks rc)))"
  unfolding main_def
  by (rule main_with_count_ok) (simp_all add: run_generators_region length_region_tasks)

lemma main_with_changes_fs:
  assumes "snd (main_with gens output_opt region_opt fs) \<noteq> fs"
  shows "\<exists>args ts. parse_args output_opt region_opt = Inr args
           \<and> run_generators gens (region args) [] = Inr ts \<and> length ts = 100"
proof (cases "parse_args output_opt region_opt")
  case (Inl e)
  with assms show ?thesis by (simp add: main_with_def)
next
  case args: (Inr args)
  show ?thesis
  proof (cases "run_generators gens (region args) []")
    case (Inl e)
    with assms args show ?thesis by (simp add: main_with_def)
  next
    case (Inr ts)
    with assms args have "length ts = 100"
      by (auto simp: main_with_def split: if_splits)
    with args Inr show ?thesis by blast
  qed
qed

text \<open>
  C4. The region table holds the five regions with the prefixes shown. For each of
  them, every URL that \<^verbatim>\<open>build_url\<close> makes from the region's base begins with the
  region's prefix, and so do the \<^verbatim>\<open>url\<close> and every ground-truth URL of every task
  generated for the region.
\<close>

theorem region_urls_begin_with_prefix:
  assumes "(r, rc) \<in> set REGIONS"
  shows "map (\<lambda>(r, rc). (r, url_prefix rc)) REGIONS
           = [(''sfbay'', ''https://sfbay.craigslist.org''),
              (''losangeles'', ''https://losangeles.craigslist.org''),
              (''newyork'', ''https://newyork.craigslist.org''),
              (''seattle'', ''https://seattle.craigslist.org''),
              (''chicago'', ''https://chicago.craigslist.org'')]
       \<and> prefix (url_prefix rc) (build_url (url_prefix rc) code params)
       \<and> (\<exists>ts. run_generators generators r [] = Inr ts
             \<and> (\<forall>t \<in> set ts. prefix (url_prefix rc) (url t)
                   \<and> (\<forall>us \<in> set (gt_urls t). \<forall>u \<in> set us. prefix (url_prefix rc) u)))"
proof -
  have table: "map (\<lambda>(r, rc). (r, url_prefix rc)) REGIONS
           = [(''sfbay'', ''https://sfbay.craigslist.org''),
              (''losangeles'', ''https://losangeles.craigslist.org''),
              (''newyork'', ''https://newyork.craigslist.org''),
              (''seattle'', ''https://seattle.craigslist.org''),
              (''chicago'', ''https://chicago.craigslist.org'')]"
    by (simp add: REGIONS_def)
  have built: "prefix (url_prefix rc) (build_url (url_prefix rc) code params)"
    by (rule build_url_prefix)
  from assms have "map_of REGIONS r = Some rc"
    by (rule region_entry_lookup)
  then have run: "run_generators generators r [] = Inr (region_tasks rc)"
    by (rule run_generators_region)
  have "prefix (url_prefix rc) (url t)
          \<and> (\<forall>us \<in> set (gt_urls t). \<forall>u \<in> set us. prefix (url_prefix rc) u)"
    if "t \<in> set (region_tasks rc)" for t
    using that by (rule region_task_urls)
  with run have tasks: "\<exists>ts. run_generators generators r [] = Inr ts
             \<and> (\<forall>t \<in> set ts. prefix (url_prefix rc) (url t)
                   \<and> (\<forall>us \<in> set (gt_urls t). \<forall>u \<in> set us. prefix (url_prefix rc) u))"
    by blast
  from table built tasks show ?thesis by blast
qed

theorem region_urls_begin_with_prefix_witness:
  "prefix ''https://newyork.craigslist.org''
     (build_url ''https://newyork.craigslist.org'' ''rva'' [(''query'', PStr ''toy hauler'')])
   \<and> (\<exists>ts. run_generators generators ''newyork'' [] = Inr ts
         \<and> list_all (\<lambda>t. prefix ''https://newyork.craigslist.org'' (url t)
               \<and> list_all (list_all (prefix ''https://newyork.craigslist.org'')) (gt_urls t)) ts)"
proof -
  let ?rc = "\<lparr> url_prefix = ''https://newyork.craigslist.org'',
               region_location = ''New York, NY, United States'',
               region_timezone = ''America/New_York'' \<rparr>"
  have entry: "(''newyork'', ?rc) \<in> set REGIONS"
    by (simp add: REGIONS_def)
  from region_urls_begin_with_prefix [OF entry, of "''rva''" "[(''query'', PStr ''toy hauler'')]"]
  show ?thesis by (simp add: list_all_iff)
qed

text \<open>
  C5. For every valid region key the generators give exactly 100 task records, 30 of
  category \<^verbatim>\<open>cars_trucks\<close>, 25 \<^verbatim>\<open>motorcycles\<close>, 23 \<^verbatim>\<open>rvs_camp\<close> and 22 \<^verbatim>\<open>boats\<close>, with
  pairwise distinct identifiers; the program then ends without error, having written
  the header and one line per record.
\<close>

theorem generator_100_tasks:
  assumes "r \<in> set (map fst REGIONS)"
  shows "\<exists>ts. run_generators generators r [] = Inr ts
           \<and> length ts = 100
           \<and> length (filter (\<lambda>t. l2_category t = ''cars_trucks'') ts) = 30
           \<and> length (filter (\<lambda>t. l2_category t = ''motorcycles'') ts) = 25
           \<and> length (filter (\<lambda>t. l2_category t = ''rvs_camp'') ts) = 23
           \<and> length (filter (\<lambda>t. l2_category t = ''boats'') ts) = 22
           \<and> distinct (map task_id ts)
           \<and> main output_opt (Some r) fs
               = (Inr (), fs((case output_opt of None \<Rightarrow> ''dataset_100.csv'' | Some p \<Rightarrow> p)
                               \<mapsto> csv_text ts))"
proof -
  from assms obtain rc where rc: "map_of REGIONS r = Some rc"
    using region_key_lookup by blast
  let ?ts = "region_tasks rc"
  let ?args = "\<lparr> output_path = (case output_opt of None \<Rightarrow> ''dataset_100.csv'' | Some p \<Rightarrow> p),
                 region = r \<rparr>"
  have run: "run_generators generators r [] = Inr ?ts"
    using rc by (rule run_generators_region)
  have len: "length ?ts = 100"
    by (rule length_region_tasks)
  have c: "length (filter (\<lambda>t. l2_category t = ''cars_trucks'') ?ts) = 30"
    unfolding count_by_category region_task_categories by simp
  have m: "length (filter (\<lambda>t. l2_category t = ''motorcycles'') ?ts) = 25"
    unfolding count_by_category region_task_categories by simp
  have v: "length (filter (\<lambda>t. l2_category t = ''rvs_camp'') ?ts) = 23"
    unfolding count_by_category region_task_categories by simp
  have b: "length (filter (\<lambda>t. l2_category t = ''boats'') ?ts) = 22"
    unfolding count_by_category region_task_categories by simp
  have d: "distinct (map task_id ?ts)"
    by (rule distinct_region_task_ids)
  have parse: "parse_args output_opt (Some r) = Inr ?args"
    using assms by (simp add: parse_args_def)
  have "main output_opt (Some r) fs = (Inr (), fs(output_path ?args \<mapsto> csv_text ?ts))"
    using parse by (rule main_valid_region) (simp add: rc)
  then have w: "main output_opt (Some r) fs
               = (Inr (), fs((case output_opt of None \<Rightarrow> ''dataset_100.csv'' | Some p \<Rightarrow> p)
                               \<mapsto> csv_text ?ts))"
    by simp
  from run len c m v b d w show ?thesis by blast
qed

theorem generator_100_tasks_witness:
  "\<exists>ts. run_generators generators ''seattle'' [] = Inr ts
      \<and> length ts = 100
      \<and> length (filter (\<lambda>t. l2_category t = ''cars_trucks'') ts) = 30
      \<and> length (filter (\<lambda>t. l2_category t = ''motorcycles'') ts) = 25
      \<and> length (filter (\<lambda>t. l2_category t = ''rvs_camp'') ts) = 23
      \<and> length (filter (\<lambda>t. l2_category t = ''boats'') ts) = 22
      \<and> distinct (map task_id ts)
      \<and> main None (Some ''seattle'') Map.empty
          = (Inr (), [''dataset_100.csv'' \<mapsto> csv_text ts])"
proof -
  have key: "''seattle'' \<in> set (map fst REGIONS)"
    by (simp add: REGIONS_def)
  from generator_100_tasks [OF key, of None Map.empty]
  show ?thesis by simp
qed

text \<open>
  C6. When the generators give a number of tasks other than 100, the program ends with
  the assertion error and the file system is as it was; and whenever a run changes the
  file system, the count was 100. The body of \<^verbatim>\<open>main\<close> is taken for any list of
  generators, since the four of the program always give 100 tasks.
\<close>

theorem count_check_before_output:
  "(\<forall>args ts. parse_args output_opt region_opt = Inr args
        \<and> run_generators gens (region args) [] = Inr ts \<and> length ts \<noteq> 100
      \<longrightarrow> main_with gens output_opt region_opt fs
            = (Inl (AssertionError (''Expected 100 tasks, got '' @ str_nat (length ts))), fs))
   \<and> (snd (main_with gens output_opt region_opt fs) \<noteq> fs
      \<longrightarrow> (\<exists>args ts. parse_args output_opt region_opt = Inr args
             \<and> run_generators gens (region args) [] = Inr ts \<and> length ts = 100))"
proof (intro conjI allI impI)
  fix args ts
  assume "parse_args output_opt region_opt = Inr args
        \<and> run_generators gens (region args) [] = Inr ts \<and> length ts \<noteq> 100"
  then have "parse_args output_opt region_opt = Inr args"
    and "run_generators gens (region args) [] = Inr ts" and "length ts \<noteq> 100"
    by simp_all
  then show "main_with gens output_opt region_opt fs
            = (Inl (AssertionError (''Expected 100 tasks, got '' @ str_nat (length ts))), fs)"
    by (rule main_with_count_mismatch)
next
  assume "snd (main_with gens output_opt region_opt fs) \<noteq> fs"
  then show "\<exists>args ts. parse_args output_opt region_opt = Inr args
             \<and> run_generators gens (region args) [] = Inr ts \<and> length ts = 100"
    by (rule main_with_changes_fs)
qed

theorem count_check_before_output_witness:
  "main_with [(''boats'', generate_boats_tasks)] None None [''dataset_100.csv'' \<mapsto> ''kept'']
     = (Inl (AssertionError ''Expected 100 tasks, got 22''), [''dataset_100.csv'' \<mapsto> ''kept''])
   \<and> snd (main_with generators None None Map.empty) \<noteq> Map.empty
   \<and> (\<exists>args ts. parse_args None None = Inr args
         \<and> run_generators generators (region args) [] = Inr ts \<and> length ts = 100)"
proof -
  let ?args = "\<lparr> output_path = ''dataset_100.csv'', region = ''sfbay'' \<rparr>"
  let ?rc = "\<lparr> url_prefix = ''https://sfbay.craigslist.org'',
               region_location = ''San Francisco, CA, United States'',
               region_timezone = ''America/Los_Angeles'' \<rparr>"
  let ?fs = "[''dataset_100.csv'' \<mapsto> ''kept'']"
  let ?boats = "map (\<lambda>(i, td). boats_task ?rc i td) (enumerate 0 boat_tasks)"
  have parse: "parse_args None None = Inr ?args"
    by (simp add: parse_args_def)
  have rc: "map_of REGIONS ''sfbay'' = Some ?rc"
    by (simp add: REGIONS_def)
  have run: "run_generators [(''boats'', generate_boats_tasks)] (region ?args) [] = Inr ?boats"
    by (simp add: boats_eq [OF rc])
  have len: "length ?boats = 22"
    by (simp add: length_boat_tasks)
  have digits: "str_nat 22 = ''22''"
    by code_simp
  have "main_with [(''boats'', generate_boats_tasks)] None None ?fs
          = (Inl (AssertionError (''Expected 100 tasks, got '' @ str_nat (length ?boats))), ?fs)"
  proof (rule count_check_before_output [of None None "[(''boats'', generate_boats_tasks)]" ?fs,
        THEN conjunct1, THEN spec [where x = ?args], THEN spec [where x = ?boats], THEN mp])
    show "parse_args None None = Inr ?args
        \<and> run_generators [(''boats'', generate_boats_tasks)] (region ?args) [] = Inr ?boats
        \<and> length ?boats \<noteq> 100"
      using parse run len by simp
  qed
  then have first: "main_with [(''boats'', generate_boats_tasks)] None None ?fs
          = (Inl (AssertionError ''Expected 100 tasks, got 22''), ?fs)"
    unfolding len digits by simp
  have "main None None Map.empty
          = (Inr (), Map.empty(output_path ?args \<mapsto> csv_text (region_tasks ?rc)))"
    using parse by (rule main_valid_region) (simp add: rc)
  then have changed: "snd (main_with generators None None Map.empty) \<noteq> Map.empty"
    by (simp add: main_def)
  then have counted: "\<exists>args ts. parse_args None None = Inr args
         \<and> run_generators generators (region args) [] = Inr ts \<and> length ts = 100"
    by (rule count_check_before_output [of None None generators Map.empty, THEN conjunct2, THEN mp])
  from first changed counted show ?thesis by (intro conjI)
qed

text \<open>
  C7. The columns are, in this order, \<^verbatim>\<open>task_id\<close>, \<^verbatim>\<open>task_generation_config_json\<close>,
  \<^verbatim>\<open>env\<close>, \<^verbatim>\<open>domain\<close>, \<^verbatim>\<open>l1_category\<close>, \<^verbatim>\<open>l2_category\<close>, \<^verbatim>\<open>suggested_difficulty\<close>,
  \<^verbatim>\<open>suggested_hint\<close>, \<^verbatim>\<open>suggested_max_steps\<close>, \<^verbatim>\<open>suggested_split\<close> and
  \<^verbatim>\<open>metadata_json\<close>. The row of every task has its cells in that order, with
  \<^verbatim>\<open>env\<close> equal to \<^verbatim>\<open>real\<close>, \<^verbatim>\<open>suggested_hint\<close> and \<^verbatim>\<open>metadata_json\<close> equal to \<^verbatim>\<open>null\<close>,
  \<^verbatim>\<open>suggested_max_steps\<close> equal to \<^verbatim>\<open>0\<close> and \<^verbatim>\<open>suggested_split\<close> equal to
  \<^verbatim>\<open>validation\<close>; these cells are written unquoted, and the rows written after the
  header are exactly these rows.
\<close>

theorem csv_row_fixed_columns:
  "fieldnames
     = [''task_id'', ''task_generation_config_json'', ''env'', ''domain'', ''l1_category'',
        ''l2_category'', ''suggested_difficulty'', ''suggested_hint'', ''suggested_max_steps'',
        ''suggested_split'', ''metadata_json'']
   \<and> row_cells t
     = Inr [task_id t,
            json_dumps (PDict
              [(''_target_'', PStr ''navi_bench.craigslist.craigslist_url_match.generate_task_config''),
               (''url'', PStr (url t)),
               (''task'', PStr (task t)),
               (''location'', PStr (location t)),
               (''timezone'', PStr (timezone t)),
               (''gt_urls'', PList (map (\<lambda>us. PList (map PStr us)) (gt_urls t)))]),
            ''real'', ''craigslist'', ''marketplace'', l2_category t, difficulty t,
            ''null'', ''0'', ''validation'', ''null'']
   \<and> map csv_quote_field [''real'', ''null'', ''0'', ''validation'']
     = [''real'', ''null'', ''0'', ''validation'']
   \<and> write_rows ts (csv_line fieldnames)
     = (Inr (), csv_line fieldnames @ concat (map (\<lambda>t. csv_line (csv_cells t)) ts))"
proof -
  have names: "fieldnames
     = [''task_id'', ''task_generation_config_json'', ''env'', ''domain'', ''l1_category'',
        ''l2_category'', ''suggested_difficulty'', ''suggested_hint'', ''suggested_max_steps'',
        ''suggested_split'', ''metadata_json'']"
    by (simp add: fieldnames_def)
  have cells: "row_cells t
     = Inr [task_id t,
            json_dumps (PDict
              [(''_target_'', PStr ''navi_bench.craigslist.craigslist_url_match.generate_task_config''),
               (''url'', PStr (url t)),
               (''task'', PStr (task t)),
               (''location'', PStr (location t)),
               (''timezone'', PStr (timezone t)),
               (''gt_urls'', PList (map (\<lambda>us. PList (map PStr us)) (gt_urls t)))]),
            ''real'', ''craigslist'', ''marketplace'', l2_category t, difficulty t,
            ''null'', ''0'', ''validation'', ''null'']"
    unfolding row_cells_eq csv_cells_def ..
  have plain: "map csv_quote_field [''real'', ''null'', ''0'', ''validation'']
     = [''real'', ''null'', ''0'', ''validation'']"
    by (simp add: csv_quote_field_def csv_special_def dquote_chr_def)
  have rows: "write_rows ts (csv_line fieldnames)
     = (Inr (), csv_line fieldnames @ concat (map (\<lambda>t. csv_line (csv_cells t)) ts))"
    by (rule write_rows_eq)
  from names cells plain rows show ?thesis by blast
qed



text \<open>
  C9, as stated, fails: the identifier has a slash between the category name and the
  index.
\<close>

theorem task_id_counterexample:
  "map_sum id (task_id \<circ> hd) (generate_cars_trucks_tasks ''sfbay'')
     = Inr ''navi_bench/craigslist/cars_trucks/0''
   \<and> map_sum id (task_id \<circ> hd) (generate_cars_trucks_tasks ''sfbay'')
     \<noteq> Inr (''navi_bench/craigslist/'' @ ''cars_trucks'' @ str_nat 0)"
proof -
  let ?rc = "\<lparr> url_prefix = ''https://sfbay.craigslist.org'',
               region_location = ''San Francisco, CA, United States'',
               region_timezone = ''America/Los_Angeles'' \<rparr>"
  have rc: "map_of REGIONS ''sfbay'' = Some ?rc"
    by (simp add: REGIONS_def)
  have ne: "car_tasks \<noteq> []"
    using length_car_tasks by auto
  have first: "hd (map (\<lambda>(i, td). cars_trucks_task ?rc i td) (enumerate 0 car_tasks))
          = cars_trucks_task ?rc 0 (hd car_tasks)"
    using ne by (rule hd_map_enumerate)
  have digits: "str_nat 0 = ''0''"
    by code_simp
  have id0: "task_id (cars_trucks_task ?rc 0 (hd car_tasks)) = ''navi_bench/craigslist/cars_trucks/0''"
    by (simp add: cars_trucks_task_def Let_def digits)
  show ?thesis
    by (simp add: cars_trucks_eq [OF rc] first id0 digits)
qed

text \<open>
  C9, amended. For every category generator and every entry at zero-based index
  \<open>i\<close> of its literal list, the record at index \<open>i\<close> has as identifier the prefix
  \<^verbatim>\<open>navi_bench/craigslist/\<close>, the category name, a slash and the decimal form of \<open>i\<close>,
  and its \<^verbatim>\<open>gt_urls\<close> is the singleton list of the singleton list of the URL that
  \<^verbatim>\<open>build_url\<close> gives for the region's base, the category's code and the entry's
  parameters.
\<close>

theorem generators_task_records:
  assumes "map_of REGIONS r = Some rc"
  shows "(\<exists>ts. generate_cars_trucks_tasks r = Inr ts \<and> length ts = length car_tasks
            \<and> (\<forall>i < length car_tasks.
                  task_id (ts ! i) = ''navi_bench/craigslist/'' @ ''cars_trucks'' @ ''/'' @ str_nat i
                  \<and> gt_urls (ts ! i)
                    = [[build_url (url_prefix rc) ''cta'' (td_params (car_tasks ! i))]]))
       \<and> (\<exists>ts. generate_motorcycles_tasks r = Inr ts \<and> length ts = length motorcycle_tasks
            \<and> (\<forall>i < length motorcycle_tasks.
                  task_id (ts ! i) = ''navi_bench/craigslist/'' @ ''motorcycles'' @ ''/'' @ str_nat i
                  \<and> gt_urls (ts ! i)
                    = [[build_url (url_prefix rc) ''mca'' (td_params (motorcycle_tasks ! i))]]))
       \<and> (\<exists>ts. generate_rvs_camp_tasks r = Inr ts \<and> length ts = length rv_tasks
            \<and> (\<forall>i < length rv_tasks.
                  task_id (ts ! i) = ''navi_bench/craigslist/'' @ ''rvs_camp'' @ ''/'' @ str_nat i
                  \<and> gt_urls (ts ! i)
                    = [[build_url (url_prefix rc) ''rva'' (td_params (rv_tasks ! i))]]))
       \<and> (\<exists>ts. generate_boats_tasks r = Inr ts \<and> length ts = length boat_tasks
            \<and> (\<forall>i < length boat_tasks.
                  task_id (ts ! i) = ''navi_bench/craigslist/'' @ ''boats'' @ ''/'' @ str_nat i
                  \<and> gt_urls (ts ! i)
                    = [[build_url (url_prefix rc) ''boa'' (td_params (boat_tasks ! i))]]))"
proof (intro conjI)
  show "\<exists>ts. generate_cars_trucks_tasks r = Inr ts \<and> length ts = length car_tasks
            \<and> (\<forall>i < length car_tasks.
                  task_id (ts ! i) = ''navi_bench/craigslist/'' @ ''cars_trucks'' @ ''/'' @ str_nat i
                  \<and> gt_urls (ts ! i)
                    = [[build_url (url_prefix rc) ''cta'' (td_params (car_tasks ! i))]])"
    unfolding cars_trucks_eq [OF assms]
    by (intro exI conjI allI impI, rule refl)
      (simp_all add: nth_enumerate_eq cars_trucks_task_def Let_def)
  show "\<exists>ts. generate_motorcycles_tasks r = Inr ts \<and> length ts = length motorcycle_tasks
            \<and> (\<forall>i < length motorcycle_tasks.
                  task_id (ts ! i) = ''navi_bench/craigslist/'' @ ''motorcycles'' @ ''/'' @ str_nat i
                  \<and> gt_urls (ts ! i)
                    = [[build_url (url_prefix rc) ''mca'' (td_params (motorcycle_tasks ! i))]])"
    unfolding motorcycles_eq [OF assms]
    by (intro exI conjI allI impI, rule refl)
      (simp_all add: nth_enumerate_eq motorcycles_task_def Let_def)
  show "\<exists>ts. generate_rvs_camp_tasks r = Inr ts \<and> length ts = length rv_tasks
            \<and> (\<forall>i < length rv_tasks.
                  task_id (ts ! i) = ''navi_bench/craigslist/'' @ ''rvs_camp'' @ ''/'' @ str_nat i
                  \<and> gt_urls (ts ! i)
                    = [[build_url (url_prefix rc) ''rva'' (td_params (rv_tasks ! i))]])"
    unfolding rvs_camp_eq [OF assms]
    by (intro exI conjI allI impI, rule refl)
      (simp_all add: nth_enumerate_eq rvs_camp_task_def Let_def)
  show "\<exists>ts. generate_boats_tasks r = Inr ts \<and> length ts = length boat_tasks
            \<and> (\<forall>i < length boat_tasks.
                  task_id (ts ! i) = ''navi_bench/craigslist/'' @ ''boats'' @ ''/'' @ str_nat i
                  \<and> gt_urls (ts ! i)
                    = [[build_url (url_prefix rc) ''boa'' (td_params (boat_tasks ! i))]])"
    unfolding boats_eq [OF assms]
    by (intro exI conjI allI impI, rule refl)
      (simp_all add: nth_enumerate_eq boats_task_def Let_def)
qed

theorem generators_task_records_witness:
  "\<exists>ts. generate_boats_tasks ''newyork'' = Inr ts
      \<and> length ts = 22
      \<and> task_id (ts ! 3) = ''navi_bench/craigslist/boats/3''
      \<and> gt_urls (ts ! 3)
        = [[''https://newyork.craigslist.org/search/boa?query=bass%20boat&hasPic=1&max_price=22000#search=2~gallery~0'']]"
proof -
  let ?rc = "\<lparr> url_prefix = ''https://newyork.craigslist.org'',
               region_location = ''New York, NY, United States'',
               region_timezone = ''America/New_York'' \<rparr>"
  have rc: "map_of REGIONS ''newyork'' = Some ?rc"
    by (simp add: REGIONS_def)
  from generators_task_records [OF rc]
  obtain ts where ts: "generate_boats_tasks ''newyork'' = Inr ts" "length ts = length boat_tasks"
    and each: "\<forall>i < length boat_tasks.
                  task_id (ts ! i) = ''navi_bench/craigslist/'' @ ''boats'' @ ''/'' @ str_nat i
                  \<and> gt_urls (ts ! i)
                    = [[build_url (url_prefix ?rc) ''boa'' (td_params (boat_tasks ! i))]]"
    by blast
  have "(3::nat) < length boat_tasks"
    by (simp add: length_boat_tasks)
  with each have third: "task_id (ts ! 3) = ''navi_bench/craigslist/'' @ ''boats'' @ ''/'' @ str_nat 3"
    "gt_urls (ts ! 3) = [[build_url (url_prefix ?rc) ''boa'' (td_params (boat_tasks ! 3))]]"
    by blast+
  have digits: "str_nat 3 = ''3''"
    by code_simp
  have params: "td_params (boat_tasks ! 3)
      = [(''query'', PStr ''bass boat''), (''hasPic'', PStr ''1''), (''max_price'', PStr ''22000'')]"
    by (simp add: boat_tasks_def)
  have built: "build_url ''https://newyork.craigslist.org'' ''boa''
        [(''query'', PStr ''bass boat''), (''hasPic'', PStr ''1''), (''max_price'', PStr ''22000'')]
      = ''https://newyork.craigslist.org/search/boa?query=bass%20boat&hasPic=1&max_price=22000#search=2~gallery~0''"
    by code_simp
  from ts third digits params built show ?thesis
    by (simp add: length_boat_tasks)
qed

end
